theory Spec2Isabelle
  imports Complex_Main "HOL-Library.Char_ord" "HOL-Library.List_Lexorder"
begin

section \<open>JavaScript values and the coercions the relay relies on\<close>

text \<open>
  The relay (\<^verbatim>\<open>server.js\<close>) receives its commands as parsed JSON, so a payload is an
  arbitrary JSON value. A JavaScript number is an IEEE double; the model keeps the finite
  ones as exact rationals, which is exact for every comparison and for all arithmetic on
  integer values below \<open>2^53\<close> (the only arithmetic the relay does is
  \<^verbatim>\<open>getTime() + minutes * 60000\<close>).
\<close>

datatype jsnum = Fin rat | NaN | PosInf | NegInf

datatype jsval =
    JUndef
  | JNull
  | JBool bool
  | JNum jsnum
  | JStr string
  | JArr "jsval list"
  | JObj "(string \<times> jsval) list"

text \<open>
  What the language runtime and the database driver do outside the source file is a
  parameter of the model wherever it is not fixed below:
  \<^item> \<open>date_fallback\<close>: \<^verbatim>\<open>Date.parse\<close> on a string that is not in the full UTC format
    \<^verbatim>\<open>YYYY-MM-DDTHH:mm:ss.sssZ\<close> (\<open>None\<close> is an invalid date, whose time value is NaN);
  \<^item> \<open>string_to_number\<close>: the numeric value of a string (\<^verbatim>\<open>Number("30")\<close>);
  \<^item> \<open>object_to_primitive\<close>: the string an array or object converts to (\<open>None\<close> when the
    conversion throws a TypeError);
  \<^item> \<open>sql_number_text\<close>: the text SQLite stores for a number bound to a TEXT column;
  \<^item> \<open>write_fault\<close>: whether the storage layer fails a write attempted at an instant.
\<close>

record runtime =
  date_fallback :: "string \<Rightarrow> int option"
  string_to_number :: "string \<Rightarrow> jsnum"
  object_to_primitive :: "jsval \<Rightarrow> string option"
  sql_number_text :: "jsnum \<Rightarrow> string"
  write_fault :: "int \<Rightarrow> bool"

datatype error =
    Error string
  | TypeError
  | RangeError
  | BindError
  | SqliteError

text \<open>\<^verbatim>\<open>p[k]\<close> for one of the keys the relay reads; reading a property of \<^verbatim>\<open>null\<close> or
  \<^verbatim>\<open>undefined\<close> throws a TypeError, every other value without the key gives
  \<^verbatim>\<open>undefined\<close>.\<close>

fun get_prop :: "jsval \<Rightarrow> string \<Rightarrow> error + jsval" where
  "get_prop JUndef k = Inl TypeError"
| "get_prop JNull k = Inl TypeError"
| "get_prop (JObj kvs) k = Inr (case map_of kvs k of Some v \<Rightarrow> v | None \<Rightarrow> JUndef)"
| "get_prop v k = Inr JUndef"

text \<open>\<^verbatim>\<open>v == null\<close>.\<close>

definition nullish :: "jsval \<Rightarrow> bool" where
  "nullish v = (v = JUndef \<or> v = JNull)"

text \<open>\<^verbatim>\<open>v ?? null\<close>.\<close>

definition or_null :: "jsval \<Rightarrow> jsval" where
  "or_null v = (if nullish v then JNull else v)"

text \<open>\<^verbatim>\<open>Array.isArray(v)\<close>.\<close>

fun is_array :: "jsval \<Rightarrow> bool" where
  "is_array (JArr xs) = True"
| "is_array v = False"

text \<open>\<^verbatim>\<open>Number(v)\<close>, also the conversion \<^verbatim>\<open>v * 60000\<close> applies to \<open>v\<close>.\<close>

fun to_number :: "runtime \<Rightarrow> jsval \<Rightarrow> error + jsnum" where
  "to_number rt JUndef = Inr NaN"
| "to_number rt JNull = Inr (Fin 0)"
| "to_number rt (JBool b) = Inr (Fin (if b then 1 else 0))"
| "to_number rt (JNum n) = Inr n"
| "to_number rt (JStr s) = Inr (string_to_number rt s)"
| "to_number rt v =
     (case object_to_primitive rt v of
        None \<Rightarrow> Inl TypeError
      | Some s \<Rightarrow> Inr (string_to_number rt s))"

text \<open>\<^verbatim>\<open>Number.isFinite(m)\<close>.\<close>

fun is_finite :: "jsnum \<Rightarrow> bool" where
  "is_finite (Fin r) = True"
| "is_finite n = False"

text \<open>\<^verbatim>\<open>m < 1 || m > 1440\<close> on a number.\<close>

fun out_of_range :: "jsnum \<Rightarrow> bool" where
  "out_of_range (Fin r) = (r < 1 \<or> r > 1440)"
| "out_of_range NaN = False"
| "out_of_range PosInf = True"
| "out_of_range NegInf = True"

subsection \<open>Regular expressions of the source\<close>

definition is_digit :: "char \<Rightarrow> bool" where
  "is_digit c = (48 \<le> (of_char c :: int) \<and> (of_char c :: int) \<le> 57)"

text \<open>A pattern is matched at the start of the text; the pattern character \<open>d\<close> stands
  for \<^verbatim>\<open>\d\<close>, every other pattern character for itself.\<close>

fun match_prefix :: "string \<Rightarrow> string \<Rightarrow> bool" where
  "match_prefix [] cs = True"
| "match_prefix (p # ps) [] = False"
| "match_prefix (p # ps) (c # cs) =
     ((if p = CHR ''d'' then is_digit c else c = p) \<and> match_prefix ps cs)"

text \<open>\<^verbatim>\<open>/^\d{4}-\d{2}-\d{2}T/.test(s)\<close> on a string.\<close>

definition iso_prefix :: "string \<Rightarrow> bool" where
  "iso_prefix s = match_prefix ''dddd-dd-ddT'' s"


text \<open>\<^verbatim>\<open>regex.test(v)\<close> converts \<open>v\<close> to a string first. The text of a number, a boolean,
  \<^verbatim>\<open>null\<close> or \<^verbatim>\<open>undefined\<close> holds no \<open>T\<close>, so only strings, arrays and objects can
  match.\<close>

fun test_iso :: "runtime \<Rightarrow> jsval \<Rightarrow> error + bool" where
  "test_iso rt (JStr s) = Inr (iso_prefix s)"
| "test_iso rt (JArr xs) =
     (case object_to_primitive rt (JArr xs) of
        None \<Rightarrow> Inl TypeError
      | Some s \<Rightarrow> Inr (iso_prefix s))"
| "test_iso rt (JObj kvs) =
     (case object_to_primitive rt (JObj kvs) of
        None \<Rightarrow> Inl TypeError
      | Some s \<Rightarrow> Inr (iso_prefix s))"
| "test_iso rt v = Inr False"

section \<open>Dates\<close>

text \<open>
  Time values are milliseconds since 1970-01-01T00:00:00Z, as \<^verbatim>\<open>Date.prototype.getTime\<close>
  returns them. The calendar follows the language standard: the day number of the first day
  of a year, leap years, and the month found from the day within the year.
\<close>

definition ms_per_day :: int where
  "ms_per_day = 86400000"

definition day_from_year :: "int \<Rightarrow> int" where
  "day_from_year y =
     365 * (y - 1970) + (y - 1969) div 4 - (y - 1901) div 100 + (y - 1601) div 400"

definition leap_year :: "int \<Rightarrow> bool" where
  "leap_year y = ((y mod 4 = 0 \<and> y mod 100 \<noteq> 0) \<or> y mod 400 = 0)"

text \<open>Days of the year before the first day of month \<open>m\<close> (1 to 12; 13 gives the length
  of the year).\<close>

definition month_start :: "bool \<Rightarrow> int \<Rightarrow> int" where
  "month_start leap m =
     (if m \<le> 1 then 0
      else if m = 2 then 31
      else (if leap then 1 else 0) +
        (if m = 3 then 59 else if m = 4 then 90 else if m = 5 then 120
         else if m = 6 then 151 else if m = 7 then 181 else if m = 8 then 212
         else if m = 9 then 243 else if m = 10 then 273 else if m = 11 then 304
         else if m = 12 then 334 else 365))"

definition days_in_month :: "int \<Rightarrow> int \<Rightarrow> int" where
  "days_in_month y m = month_start (leap_year y) (m + 1) - month_start (leap_year y) m"

definition days_from_civil :: "int \<Rightarrow> int \<Rightarrow> int \<Rightarrow> int" where
  "days_from_civil y m d = day_from_year y + month_start (leap_year y) m + d - 1"

text \<open>The year of a day number: an estimate from the mean length of a year, corrected by
  comparing with the first days of the neighbouring years.\<close>

definition year_from_day :: "int \<Rightarrow> int" where
  "year_from_day z =
     (let y0 = 1970 + (400 * z) div 146097
      in if day_from_year (y0 + 1) \<le> z then y0 + 1
         else if z < day_from_year y0 then y0 - 1
         else y0)"

definition month_from_day :: "bool \<Rightarrow> int \<Rightarrow> int" where
  "month_from_day leap n =
     (if n < month_start leap 2 then 1 else if n < month_start leap 3 then 2
      else if n < month_start leap 4 then 3 else if n < month_start leap 5 then 4
      else if n < month_start leap 6 then 5 else if n < month_start leap 7 then 6
      else if n < month_start leap 8 then 7 else if n < month_start leap 9 then 8
      else if n < month_start leap 10 then 9 else if n < month_start leap 11 then 10
      else if n < month_start leap 12 then 11 else 12)"

definition civil_from_days :: "int \<Rightarrow> int \<times> int \<times> int" where
  "civil_from_days z =
     (let y = year_from_day z;
          n = z - day_from_year y;
          m = month_from_day (leap_year y) n
      in (y, m, n - month_start (leap_year y) m + 1))"

subsection \<open>Rendering and reading timestamps\<close>

definition digit :: "int \<Rightarrow> char" where
  "digit k = char_of (48 + k mod 10)"

definition digit_val :: "char \<Rightarrow> int" where
  "digit_val c = of_char c - 48"

definition two :: "int \<Rightarrow> string" where
  "two k = [digit (k div 10), digit k]"

definition three :: "int \<Rightarrow> string" where
  "three k = [digit (k div 100), digit (k div 10), digit k]"

definition four :: "int \<Rightarrow> string" where
  "four k = [digit (k div 1000), digit (k div 100), digit (k div 10), digit k]"

definition six :: "int \<Rightarrow> string" where
  "six k = [digit (k div 100000), digit (k div 10000), digit (k div 1000),
            digit (k div 100), digit (k div 10), digit k]"

text \<open>The clock part \<^verbatim>\<open>HH:mm:ss\<close> of a number of seconds within a day.\<close>

definition clock :: "int \<Rightarrow> string" where
  "clock s = two (s div 3600) @ '':'' @ two (s div 60 mod 60) @ '':'' @ two (s mod 60)"

text \<open>\<^verbatim>\<open>new Date(t).toISOString()\<close> for a valid time value \<open>t\<close>: years 0 to 9999 take
  four digits, the others a sign and six digits.\<close>

definition toISOString :: "int \<Rightarrow> string" where
  "toISOString t =
     (let (y, m, d) = civil_from_days (t div ms_per_day);
          r = t mod ms_per_day
      in (if 0 \<le> y \<and> y \<le> 9999 then four y
          else (if y < 0 then ''-'' else ''+'') @ six (abs y))
         @ ''-'' @ two m @ ''-'' @ two d @ ''T'' @ clock (r div 1000)
         @ ''.'' @ three (r mod 1000) @ ''Z'')"

text \<open>SQLite's \<^verbatim>\<open>datetime(x)\<close> renders an instant as \<^verbatim>\<open>YYYY-MM-DD HH:MM:SS\<close>, dropping
  the fraction of the second. The argument here is a number of whole seconds since the
  epoch.\<close>

definition datetime_text :: "int \<Rightarrow> string" where
  "datetime_text s =
     (let (y, m, d) = civil_from_days (s div 86400)
      in four y @ ''-'' @ two m @ ''-'' @ two d @ '' '' @ clock (s mod 86400))"

text \<open>Reading the full UTC format \<^verbatim>\<open>YYYY-MM-DDTHH:mm:ss.sssZ\<close> with every element in its
  calendar range. Both \<^verbatim>\<open>Date.parse\<close> and SQLite's date functions read such a text as the
  same instant.\<close>

definition num2 :: "char \<Rightarrow> char \<Rightarrow> int" where
  "num2 a b = 10 * digit_val a + digit_val b"

fun parse_utc :: "string \<Rightarrow> int option" where
  "parse_utc [y1, y2, y3, y4, p1, m1, m2, p2, d1, d2, pT, h1, h2, p3, i1, i2, p4, s1, s2,
              p5, f1, f2, f3, pZ] =
     (let y = 100 * num2 y1 y2 + num2 y3 y4;
          m = num2 m1 m2; d = num2 d1 d2;
          h = num2 h1 h2; i = num2 i1 i2; s = num2 s1 s2;
          f = 100 * digit_val f1 + num2 f2 f3
      in if list_all is_digit [y1, y2, y3, y4, m1, m2, d1, d2, h1, h2, i1, i2, s1, s2,
                               f1, f2, f3]
            \<and> [p1, p2, pT, p3, p4, p5, pZ] = ''--T::.Z''
            \<and> 1 \<le> m \<and> m \<le> 12 \<and> 1 \<le> d \<and> d \<le> days_in_month y m
            \<and> h \<le> 23 \<and> i \<le> 59 \<and> s \<le> 59
         then Some (days_from_civil y m d * ms_per_day
                    + h * 3600000 + i * 60000 + s * 1000 + f)
         else None)"
| "parse_utc s = None"

text \<open>\<^verbatim>\<open>Date.parse(s)\<close>: the full UTC format is read as above, everything else is left to
  the runtime.\<close>

definition date_parse :: "runtime \<Rightarrow> string \<Rightarrow> int option" where
  "date_parse rt s = (case parse_utc s of Some t \<Rightarrow> Some t | None \<Rightarrow> date_fallback rt s)"

text \<open>SQLite's \<^verbatim>\<open>datetime(x)\<close> on a stored timestamp, as the number of whole seconds it
  denotes; \<open>None\<close> is NULL. The texts the relay stores in \<^verbatim>\<open>expiresISO\<close> all come from
  \<^verbatim>\<open>toISOString\<close>; SQLite has no six-digit years, so those give NULL.\<close>

definition sql_datetime :: "string \<Rightarrow> int option" where
  "sql_datetime s = map_option (\<lambda>t. t div 1000) (parse_utc s)"

subsection \<open>Arithmetic on time values\<close>

text \<open>Truncation toward zero, as \<^verbatim>\<open>new Date(x)\<close> applies it to a fractional time value.\<close>

definition trunc :: "rat \<Rightarrow> int" where
  "trunc r = (if 0 \<le> r then \<lfloor>r\<rfloor> else \<lceil>r\<rceil>)"

text \<open>\<^verbatim>\<open>new Date(x)\<close> for a number: beyond 8.64e15 milliseconds either side of the epoch, and
  for NaN and the infinities, the date is invalid (\<open>None\<close>).\<close>

fun time_clip :: "jsnum \<Rightarrow> int option" where
  "time_clip (Fin r) = (if abs r \<le> 8640000000000000 then Some (trunc r) else None)"
| "time_clip n = None"

text \<open>\<^verbatim>\<open>m * 60000\<close> and \<^verbatim>\<open>t + x\<close> on numbers; \<open>None\<close> as a time value is NaN.\<close>

fun times_60000 :: "jsnum \<Rightarrow> jsnum" where
  "times_60000 (Fin r) = Fin (r * 60000)"
| "times_60000 n = n"

fun plus_time :: "int option \<Rightarrow> jsnum \<Rightarrow> jsnum" where
  "plus_time None x = NaN"
| "plus_time (Some t) (Fin r) = Fin (of_int t + r)"
| "plus_time (Some t) n = n"

text \<open>\<^verbatim>\<open>new Date(v).getTime()\<close> for a JSON value \<open>v\<close>.\<close>

fun date_value :: "runtime \<Rightarrow> jsval \<Rightarrow> error + int option" where
  "date_value rt (JStr s) = Inr (date_parse rt s)"
| "date_value rt (JNum n) = Inr (time_clip n)"
| "date_value rt JUndef = Inr None"
| "date_value rt JNull = Inr (Some 0)"
| "date_value rt (JBool b) = Inr (Some (if b then 1 else 0))"
| "date_value rt v =
     (case object_to_primitive rt v of
        None \<Rightarrow> Inl TypeError
      | Some s \<Rightarrow> Inr (date_parse rt s))"

section \<open>The warnings table\<close>

text \<open>
  \<open>row\<close> is the object \<^verbatim>\<open>handleIssue\<close> builds and hands to the prepared statement; a
  \<open>warning\<close> is a row of the table, which has the column \<^verbatim>\<open>created_at\<close> besides. The
  fields carry the column names with the prefix \<open>w_\<close>. The polygon cell holds the JSON
  value whose text \<^verbatim>\<open>JSON.stringify\<close> stores and \<^verbatim>\<open>JSON.parse\<close> reads back.
\<close>

record row =
  w_id :: jsval
  w_type :: jsval
  w_polygon :: jsval
  w_issuedISO :: jsval
  w_minutes :: jsval
  w_expiresISO :: string
  w_wind :: jsval
  w_hail :: jsval
  w_threat :: jsval
  w_author :: jsval
  w_info :: jsval
  w_possibleTag :: jsval
  w_active :: nat

record warning = row +
  w_created_at :: string

text \<open>The driver binds numbers, strings and \<^verbatim>\<open>null\<close>; any other value makes the
  statement throw a TypeError before it runs.\<close>

fun bindable :: "jsval \<Rightarrow> bool" where
  "bindable (JNum n) = True"
| "bindable (JStr s) = True"
| "bindable JNull = True"
| "bindable v = False"

text \<open>A bound value that SQLite stores as NULL.\<close>

definition sql_null :: "jsval \<Rightarrow> bool" where
  "sql_null v = (v = JNull \<or> v = JNum NaN)"

text \<open>The content of a cell of a TEXT column after a value was bound to it: a number is
  stored as its text.\<close>

fun text_cell :: "runtime \<Rightarrow> jsval \<Rightarrow> jsval" where
  "text_cell rt (JNum n) = (if n = NaN then JNull else JStr (sql_number_text rt n))"
| "text_cell rt v = v"

text \<open>The text a value is compared as against a TEXT column; \<open>None\<close> is NULL.\<close>

fun cell_text :: "runtime \<Rightarrow> jsval \<Rightarrow> string option" where
  "cell_text rt (JStr s) = Some s"
| "cell_text rt (JNum n) = (if n = NaN then None else Some (sql_number_text rt n))"
| "cell_text rt v = None"

text \<open>\<^verbatim>\<open>id = ?\<close>, and the conflict test of the primary key: NULL equals nothing.\<close>

definition same_key :: "runtime \<Rightarrow> jsval \<Rightarrow> jsval \<Rightarrow> bool" where
  "same_key rt a b =
     (case cell_text rt a of
        None \<Rightarrow> False
      | Some x \<Rightarrow> (case cell_text rt b of None \<Rightarrow> False | Some y \<Rightarrow> x = y))"

text \<open>The row of the table for a bound row and a creation time. The column \<^verbatim>\<open>minutes\<close>
  is an INTEGER column, which stores a text that reads as a number as that number;
  nothing below reads the column, and the cell keeps the bound value.\<close>

definition stored :: "runtime \<Rightarrow> row \<Rightarrow> string \<Rightarrow> warning" where
  "stored rt r c =
     \<lparr>w_id = text_cell rt (w_id r), w_type = text_cell rt (w_type r),
      w_polygon = w_polygon r, w_issuedISO = text_cell rt (w_issuedISO r),
      w_minutes = w_minutes r, w_expiresISO = w_expiresISO r,
      w_wind = text_cell rt (w_wind r), w_hail = text_cell rt (w_hail r),
      w_threat = text_cell rt (w_threat r), w_author = text_cell rt (w_author r),
      w_info = text_cell rt (w_info r), w_possibleTag = text_cell rt (w_possibleTag r),
      w_active = w_active r, w_created_at = c\<rparr>"

text \<open>\<^verbatim>\<open>insertWarning.run(row)\<close> at the instant \<open>now\<close>: INSERT OR REPLACE deletes the row
  with the same key and inserts a new one, whose \<^verbatim>\<open>created_at\<close> is the column default
  \<^verbatim>\<open>datetime('now')\<close>. The columns declared NOT NULL reject NULL.\<close>

definition insertWarning :: "runtime \<Rightarrow> int \<Rightarrow> row \<Rightarrow> warning list \<Rightarrow> error + warning list" where
  "insertWarning rt now r tbl =
     (if \<not> list_all bindable [w_id r, w_type r, w_issuedISO r, w_minutes r, w_wind r,
                                  w_hail r, w_threat r, w_author r, w_info r, w_possibleTag r]
      then Inl TypeError
      else if sql_null (w_type r) \<or> sql_null (w_issuedISO r) \<or> sql_null (w_minutes r)
              \<or> write_fault rt now
      then Inl SqliteError
      else Inr (filter (\<lambda>w. \<not> same_key rt (w_id w) (w_id r)) tbl
                @ [stored rt r (datetime_text (now div 1000))]))"

text \<open>\<^verbatim>\<open>getActive.all()\<close> at the instant \<open>now\<close>:
  \<^verbatim>\<open>WHERE active = 1 AND datetime(expiresISO) > datetime('now')\<close>. Both sides are texts of
  whole seconds, compared as texts, which for four-digit years is the order of the
  instants.\<close>

definition is_active :: "int \<Rightarrow> warning \<Rightarrow> bool" where
  "is_active now w =
     (w_active w = 1 \<and>
      (case sql_datetime (w_expiresISO w) of None \<Rightarrow> False | Some e \<Rightarrow> now div 1000 < e))"

definition getActive :: "int \<Rightarrow> warning list \<Rightarrow> warning list" where
  "getActive now tbl = filter (is_active now) tbl"

text \<open>A statement takes its parameters as separate arguments, as an array of them, or as
  a plain object of named ones. The statement of \<^verbatim>\<open>expireById\<close> has one anonymous
  parameter, so \<^verbatim>\<open>expireById.run(id)\<close> binds \<open>id\<close> itself when it is a number, a string
  or \<^verbatim>\<open>null\<close>, and the one element of an array when that is such a value. On every
  other argument the driver throws (a TypeError or a RangeError, \<open>BindError\<close> here) before
  the statement runs.\<close>

fun bound_param :: "jsval \<Rightarrow> jsval option" where
  "bound_param (JArr [v]) = (if bindable v then Some v else None)"
| "bound_param v = (if bindable v then Some v else None)"

text \<open>\<^verbatim>\<open>expireById.run(id)\<close> at the instant \<open>now\<close>:
  \<^verbatim>\<open>UPDATE warnings SET active = 0 WHERE id = ?\<close>.\<close>

definition expireById :: "runtime \<Rightarrow> int \<Rightarrow> jsval \<Rightarrow> warning list \<Rightarrow> error + warning list" where
  "expireById rt now i tbl =
     (case bound_param i of
        None \<Rightarrow> Inl BindError
      | Some v \<Rightarrow>
          if write_fault rt now then Inl SqliteError
          else Inr (map (\<lambda>w. if same_key rt (w_id w) v then w\<lparr>w_active := 0\<rparr> else w) tbl))"




section \<open>The relay\<close>

text \<open>
  The state of the process together with its database file: the table, the pending
  timeouts (the instant each is due and the id its callback captured), the connected
  Socket.IO sockets, the set \<^verbatim>\<open>wsClients\<close> (each socket with its \<^verbatim>\<open>readyState\<close>), and
  what the process has put out: the broadcasts handed to \<^verbatim>\<open>io.emit\<close>, the messages
  delivered to each client in order, and the console.
\<close>

datatype transport = Io | Ws

datatype client = IoClient nat | WsClient nat

datatype message =
    Bootstrap "warning list"
  | Event string jsval

datatype log_entry =
    IssueLog transport jsval jsval
  | IssueError error
  | ExpireLog transport jsval
  | ExpireError error
  | TimerError error

record state =
  db :: "warning list"
  timers :: "(int \<times> jsval) list"
  io_sockets :: "nat list"
  wsClients :: "(nat \<times> nat) list"
  emitted :: "message list"
  delivered :: "(client \<times> message) list"
  console :: "log_entry list"

definition ws_open :: "(nat \<times> nat) list \<Rightarrow> nat list" where
  "ws_open cs = map fst (filter (\<lambda>c. snd c = 1) cs)"

text \<open>\<^verbatim>\<open>broadcast(kind, obj)\<close>: \<^verbatim>\<open>io.emit\<close> for the two kinds of event, then one frame to
  every member of \<^verbatim>\<open>wsClients\<close> whose \<^verbatim>\<open>readyState\<close> is 1. The frame is the JSON text of
  the same kind and object.\<close>

definition broadcast :: "string \<Rightarrow> jsval \<Rightarrow> state \<Rightarrow> state" where
  "broadcast kind obj s =
     (let to_io = (kind = ''issue'' \<or> kind = ''expire'')
      in s\<lparr>emitted := emitted s @ (if to_io then [Event kind obj] else []),
           delivered := delivered s
             @ (if to_io then map (\<lambda>c. (IoClient c, Event kind obj)) (io_sockets s) else [])
             @ map (\<lambda>c. (WsClient c, Event kind obj)) (ws_open (wsClients s))\<rparr>)"

text \<open>The object \<^verbatim>\<open>{ id }\<close>.\<close>

definition id_obj :: "jsval \<Rightarrow> jsval" where
  "id_obj i = JObj [(''id'', i)]"

text \<open>The callback \<^verbatim>\<open>scheduleExpiry\<close> hands to \<^verbatim>\<open>setTimeout\<close>, run at the instant
  \<open>now\<close>.\<close>

definition expiry_callback :: "runtime \<Rightarrow> int \<Rightarrow> jsval \<Rightarrow> state \<Rightarrow> state" where
  "expiry_callback rt now i s =
     (case expireById rt now i (db s) of
        Inl e \<Rightarrow> s\<lparr>console := console s @ [TimerError e]\<rparr>
      | Inr tbl \<Rightarrow> broadcast ''expire'' (id_obj i) (s\<lparr>db := tbl\<rparr>))"

text \<open>The delay \<^verbatim>\<open>setTimeout\<close> really waits: the runtime replaces a delay that is not
  between 1 and \<open>2^31 - 1\<close> milliseconds by 1.\<close>

definition timeout_delay :: "int \<Rightarrow> int" where
  "timeout_delay ms = (if 1 \<le> ms \<and> ms \<le> 2147483647 then ms else 1)"

text \<open>\<^verbatim>\<open>scheduleExpiry(id, expiresISO)\<close> at the instant \<open>now\<close>. For an invalid date \<open>ms\<close> is
  NaN, the test \<^verbatim>\<open>ms <= 0\<close> is false and the timeout is set with the delay NaN, which the
  runtime replaces by 1.\<close>

definition scheduleExpiry :: "runtime \<Rightarrow> int \<Rightarrow> jsval \<Rightarrow> string \<Rightarrow> state \<Rightarrow> state" where
  "scheduleExpiry rt now i expiresISO s =
     (case date_parse rt expiresISO of
        None \<Rightarrow> s\<lparr>timers := timers s @ [(now + 1, i)]\<rparr>
      | Some e \<Rightarrow>
          (let ms = e - now
           in if ms \<le> 0 then s
              else s\<lparr>timers := timers s @ [(now + timeout_delay ms, i)]\<rparr>))"

definition required :: "string list" where
  "required = [''id'', ''type'', ''polygon'', ''issuedISO'', ''minutes'']"

fun check_required :: "jsval \<Rightarrow> string list \<Rightarrow> error + unit" where
  "check_required p [] = Inr ()"
| "check_required p (k # ks) =
     (case get_prop p k of
        Inl e \<Rightarrow> Inl e
      | Inr v \<Rightarrow> if nullish v then Inl (Error (''Missing '' @ k)) else check_required p ks)"

text \<open>A property of a payload that is known not to be \<^verbatim>\<open>null\<close> or \<^verbatim>\<open>undefined\<close>.\<close>

definition field_of :: "jsval \<Rightarrow> string \<Rightarrow> jsval" where
  "field_of p k = (case get_prop p k of Inl e \<Rightarrow> JUndef | Inr v \<Rightarrow> v)"

definition validateIssue :: "runtime \<Rightarrow> jsval \<Rightarrow> error + unit" where
  "validateIssue rt p =
     (case check_required p required of
        Inl e \<Rightarrow> Inl e
      | Inr u \<Rightarrow>
          if \<not> is_array (field_of p ''polygon'')
          then Inl (Error ''polygon must be an array of rings/points'')
          else (case test_iso rt (field_of p ''issuedISO'') of
                  Inl e \<Rightarrow> Inl e
                | Inr ok \<Rightarrow>
                    if \<not> ok then Inl (Error ''issuedISO must be ISO string'')
                    else (case to_number rt (field_of p ''minutes'') of
                            Inl e \<Rightarrow> Inl e
                          | Inr m \<Rightarrow>
                              if \<not> is_finite m \<or> out_of_range m
                              then Inl (Error ''minutes out of range'')
                              else Inr ())))"

text \<open>The time value of
  \<^verbatim>\<open>new Date(new Date(payload.issuedISO).getTime() + payload.minutes * 60000)\<close>, and its
  \<^verbatim>\<open>toISOString()\<close>, which throws a RangeError on an invalid date.\<close>

definition expiry_time :: "runtime \<Rightarrow> jsval \<Rightarrow> error + int" where
  "expiry_time rt p =
     (case date_value rt (field_of p ''issuedISO'') of
        Inl e \<Rightarrow> Inl e
      | Inr tv \<Rightarrow>
          (case to_number rt (field_of p ''minutes'') of
             Inl e \<Rightarrow> Inl e
           | Inr m \<Rightarrow>
               (case time_clip (plus_time tv (times_60000 m)) of
                  None \<Rightarrow> Inl RangeError
                | Some t \<Rightarrow> Inr t)))"

definition expires_iso :: "runtime \<Rightarrow> jsval \<Rightarrow> error + string" where
  "expires_iso rt p =
     (case expiry_time rt p of Inl e \<Rightarrow> Inl e | Inr t \<Rightarrow> Inr (toISOString t))"

definition make_row :: "jsval \<Rightarrow> string \<Rightarrow> row" where
  "make_row p expiresISO =
     \<lparr>w_id = field_of p ''id'',
      w_type = field_of p ''type'',
      w_polygon = field_of p ''polygon'',
      w_issuedISO = field_of p ''issuedISO'',
      w_minutes = field_of p ''minutes'',
      w_expiresISO = expiresISO,
      w_wind = or_null (field_of p ''wind''),
      w_hail = or_null (field_of p ''hail''),
      w_threat = or_null (field_of p ''threat''),
      w_author = or_null (field_of p ''author''),
      w_info = or_null (field_of p ''info''),
      w_possibleTag = or_null (field_of p ''possibleTag''),
      w_active = 1\<rparr>"

text \<open>The object \<^verbatim>\<open>{ ...payload, expiresISO }\<close>; a payload that passed validation is an
  object.\<close>

fun with_expires :: "jsval \<Rightarrow> string \<Rightarrow> jsval" where
  "with_expires (JObj kvs) e =
     JObj (filter (\<lambda>kv. fst kv \<noteq> ''expiresISO'') kvs @ [(''expiresISO'', JStr e)])"
| "with_expires v e = JObj [(''expiresISO'', JStr e)]"

definition issue_failed :: "error \<Rightarrow> state \<Rightarrow> state" where
  "issue_failed e s = s\<lparr>console := console s @ [IssueError e]\<rparr>"

definition handleIssue :: "runtime \<Rightarrow> int \<Rightarrow> jsval \<Rightarrow> transport \<Rightarrow> state \<Rightarrow> state" where
  "handleIssue rt now payload src s =
     (case validateIssue rt payload of
        Inl e \<Rightarrow> issue_failed e s
      | Inr u \<Rightarrow>
          (case expires_iso rt payload of
             Inl e \<Rightarrow> issue_failed e s
           | Inr expiresISO \<Rightarrow>
               (let r = make_row payload expiresISO
                in case insertWarning rt now r (db s) of
                     Inl e \<Rightarrow> issue_failed e s
                   | Inr tbl \<Rightarrow>
                       (let s1 = scheduleExpiry rt now (w_id r) (w_expiresISO r) (s\<lparr>db := tbl\<rparr>);
                            s2 = broadcast ''issue'' (with_expires payload expiresISO) s1
                        in s2\<lparr>console := console s2 @ [IssueLog src (w_type r) (w_id r)]\<rparr>))))"

definition handleExpire :: "runtime \<Rightarrow> int \<Rightarrow> jsval \<Rightarrow> transport \<Rightarrow> state \<Rightarrow> state" where
  "handleExpire rt now i src s =
     (case expireById rt now i (db s) of
        Inl e \<Rightarrow> s\<lparr>console := console s @ [ExpireError e]\<rparr>
      | Inr tbl \<Rightarrow>
          (let s1 = broadcast ''expire'' (id_obj i) (s\<lparr>db := tbl\<rparr>)
           in s1\<lparr>console := console s1 @ [ExpireLog src i]\<rparr>))"

text \<open>The \<^verbatim>\<open>connection\<close> handlers. Socket.IO has the socket among the receivers of
  \<^verbatim>\<open>io.emit\<close> when it calls the handler; the other handler adds the socket to
  \<^verbatim>\<open>wsClients\<close> itself. Each sends the rows of \<^verbatim>\<open>getActive\<close> as the bootstrap.\<close>

definition io_connection :: "int \<Rightarrow> nat \<Rightarrow> state \<Rightarrow> state" where
  "io_connection now c s =
     s\<lparr>io_sockets := (if c \<in> set (io_sockets s) then io_sockets s else io_sockets s @ [c]),
       delivered := delivered s @ [(IoClient c, Bootstrap (getActive now (db s)))]\<rparr>"

definition ws_connection :: "int \<Rightarrow> nat \<Rightarrow> state \<Rightarrow> state" where
  "ws_connection now c s =
     s\<lparr>wsClients := filter (\<lambda>x. fst x \<noteq> c) (wsClients s) @ [(c, 1)],
       delivered := delivered s @ [(WsClient c, Bootstrap (getActive now (db s)))]\<rparr>"

text \<open>\<^verbatim>\<open>ws.on("close", () => wsClients.delete(ws))\<close>.\<close>

definition ws_close :: "nat \<Rightarrow> state \<Rightarrow> state" where
  "ws_close c s = s\<lparr>wsClients := filter (\<lambda>x. fst x \<noteq> c) (wsClients s)\<rparr>"

text \<open>The loop that runs when the process starts:
  \<^verbatim>\<open>for (const row of getActive.all()) scheduleExpiry(row.id, row.expiresISO)\<close>.\<close>

fun reschedule :: "runtime \<Rightarrow> int \<Rightarrow> warning list \<Rightarrow> state \<Rightarrow> state" where
  "reschedule rt now [] s = s"
| "reschedule rt now (w # ws) s =
     reschedule rt now ws (scheduleExpiry rt now (w_id w) (w_expiresISO w) s)"

text \<open>A new process on the same database file has no timeouts and no clients.\<close>

definition boot :: "runtime \<Rightarrow> int \<Rightarrow> state \<Rightarrow> state" where
  "boot rt now s =
     reschedule rt now (getActive now (db s)) (s\<lparr>timers := [], io_sockets := [], wsClients := []\<rparr>)"

text \<open>What happens to the process, each at an instant: a command arrives on a transport,
  the pending timeout at a position of the list fires (not before it is due), a client
  connects or goes away, the \<^verbatim>\<open>readyState\<close> of a socket changes, the process is killed
  and started again.\<close>

datatype event =
    IssueCmd transport jsval
  | ExpireCmd transport jsval
  | TimerFires nat
  | IoConnects nat
  | IoDisconnects nat
  | WsConnects nat
  | WsReadyState nat nat
  | WsCloses nat
  | Restart

fun step :: "runtime \<Rightarrow> state \<Rightarrow> int \<times> event \<Rightarrow> state" where
  "step rt s (now, IssueCmd src p) = handleIssue rt now p src s"
| "step rt s (now, ExpireCmd src i) = handleExpire rt now i src s"
| "step rt s (now, TimerFires k) =
     (if k < length (timers s) \<and> fst (timers s ! k) \<le> now
      then expiry_callback rt now (snd (timers s ! k))
             (s\<lparr>timers := take k (timers s) @ drop (Suc k) (timers s)\<rparr>)
      else s)"
| "step rt s (now, IoConnects c) = io_connection now c s"
| "step rt s (now, IoDisconnects c) = s\<lparr>io_sockets := removeAll c (io_sockets s)\<rparr>"
| "step rt s (now, WsConnects c) = ws_connection now c s"
| "step rt s (now, WsReadyState c n) =
     s\<lparr>wsClients := map (\<lambda>x. if fst x = c then (c, n) else x) (wsClients s)\<rparr>"
| "step rt s (now, WsCloses c) = ws_close c s"
| "step rt s (now, Restart) = boot rt now s"


text \<open>A process started on an empty database.\<close>

definition initial :: state where
  "initial = \<lparr>db = [], timers = [], io_sockets = [], wsClients = [], emitted = [],
              delivered = [], console = []\<rparr>"

section \<open>The history endpoint\<close>








section \<open>Concrete commands\<close>

text \<open>A runtime for the concrete runs below. They use strings and numbers only, and
  timestamps in the full UTC format or with a month that does not exist, so no result
  depends on the choices made here (an unreadable timestamp is an invalid date).\<close>

definition plain_runtime :: runtime where
  "plain_runtime =
     \<lparr>date_fallback = (\<lambda>s. None), string_to_number = (\<lambda>s. NaN),
      object_to_primitive = (\<lambda>v. None), sql_number_text = (\<lambda>n. []),
      write_fault = (\<lambda>t. False)\<rparr>"

text \<open>The same runtime on a storage layer that fails every write.\<close>

definition failing_disk :: runtime where
  "failing_disk = plain_runtime\<lparr>write_fault := (\<lambda>t. True)\<rparr>"

definition ring :: jsval where
  "ring = JArr [JArr [JNum (Fin 40), JNum (Fin (-90))],
                JArr [JNum (Fin (401 / 10)), JNum (Fin (-90))],
                JArr [JNum (Fin (401 / 10)), JNum (Fin (-901 / 10))]]"

text \<open>An issue command for the warning \<open>W1\<close> of type \<open>TOR\<close> with the given polygon,
  \<^verbatim>\<open>issuedISO\<close> and \<^verbatim>\<open>minutes\<close>.\<close>

definition issue_W1 :: "jsval \<Rightarrow> string \<Rightarrow> jsval \<Rightarrow> jsval" where
  "issue_W1 polygon issued minutes =
     JObj [(''id'', JStr ''W1''), (''type'', JStr ''TOR''), (''polygon'', polygon),
           (''issuedISO'', JStr issued), (''minutes'', minutes)]"

text \<open>The invalid command \<^verbatim>\<open>{id: "W2", minutes: 0}\<close>.\<close>

definition issue_W2 :: jsval where
  "issue_W2 = JObj [(''id'', JStr ''W2''), (''minutes'', JNum (Fin 0))]"

text \<open>2024-05-01T12:00:00.000Z as a time value.\<close>

definition noon :: int where
  "noon = 1714564800000"

text \<open>The state after \<open>W1\<close> was issued at noon for 30 minutes on an empty database, the
  same warning issued again a minute later, and the state after \<open>W1\<close> was issued at half
  a second past noon.\<close>

definition one_warning :: state where
  "one_warning =
     handleIssue plain_runtime noon (issue_W1 ring ''2024-05-01T12:00:00.000Z'' (JNum (Fin 30)))
       Io initial"

definition reissue_W1 :: jsval where
  "reissue_W1 = issue_W1 ring ''2024-05-01T12:01:00.000Z'' (JNum (Fin 30))"

definition half_second :: state where
  "half_second =
     handleIssue plain_runtime noon (issue_W1 ring ''2024-05-01T12:00:00.500Z'' (JNum (Fin 30)))
       Io initial"



section \<open>Notions the properties are stated with\<close>

text \<open>An issue command is accepted when validation, the computation of the expiry and the
  write to the store all succeed.\<close>

definition accepted :: "runtime \<Rightarrow> int \<Rightarrow> jsval \<Rightarrow> state \<Rightarrow> bool" where
  "accepted rt now p s =
     (case validateIssue rt p of
        Inl e \<Rightarrow> False
      | Inr u \<Rightarrow>
          (case expires_iso rt p of
             Inl e \<Rightarrow> False
           | Inr x \<Rightarrow>
               (case insertWarning rt now (make_row p x) (db s) of
                  Inl e \<Rightarrow> False
                | Inr tbl \<Rightarrow> True)))"

















section \<open>Calendar arithmetic\<close>

lemma div_lower: "0 < k \<Longrightarrow> k * (x div k) \<le> (x::int)"
  using pos_mod_sign[of k x] mult_div_mod_eq[of k x] by linarith

lemma div_upper: "0 < k \<Longrightarrow> (x::int) < k * (x div k) + k"
  using pos_mod_bound[of k x] mult_div_mod_eq[of k x] by linarith

lemma est_lower:
  fixes a b c y :: int
  assumes "y - 1969 < 4 * a + 4" "100 * b \<le> y - 1901" "y - 1601 < 400 * c + 400"
  shows "146097 * (y - 1970) - 506 \<le> 400 * (365 * (y - 1970) + a - b + c)"
  using assms by (simp add: algebra_simps)

lemma est_upper:
  fixes a b c y :: int
  assumes "4 * a \<le> y - 1969" "y - 1901 < 100 * b + 100" "400 * c \<le> y - 1601"
  shows "400 * (365 * (y - 1970) + a - b + c) \<le> 146097 * (y - 1970) + 589"
  using assms by (simp add: algebra_simps)

lemma day_from_year_lower: "146097 * (y - 1970) - 506 \<le> 400 * day_from_year y"
  unfolding day_from_year_def
  by (rule est_lower) (simp_all only: div_upper div_lower zero_less_numeral)

lemma day_from_year_upper: "400 * day_from_year y \<le> 146097 * (y - 1970) + 589"
  unfolding day_from_year_def
  by (rule est_upper) (simp_all only: div_upper div_lower zero_less_numeral)

lemma div_succ:
  fixes x k :: int
  assumes "0 < k"
  shows "(x + 1) div k = x div k + (if (x + 1) mod k = 0 then 1 else 0)"
proof (cases "x mod k = k - 1")
  case True
  have "x = k * (x div k) + (k - 1)" using True by (metis mult_div_mod_eq)
  then have "x + 1 = k * (x div k + 1)" by (simp add: algebra_simps)
  then have "(x + 1) div k = x div k + 1" "(x + 1) mod k = 0"
    using assms by simp_all
  then show ?thesis by simp
next
  case False
  have r: "0 \<le> x mod k" "x mod k < k" using assms by simp_all
  have e: "x + 1 = k * (x div k) + (x mod k + 1)" by (simp add: algebra_simps)
  have "(x + 1) div k = x div k" 
    using int_div_pos_eq[OF e] r False by simp
  moreover have "(x + 1) mod k = x mod k + 1"
    using int_mod_pos_eq[OF e] r False by simp
  ultimately show ?thesis using r by simp
qed

lemma mod_shift: "((y::int) - k * c) mod k = y mod k"
  by (metis mod_diff_right_eq mod_mult_self1_is_0 diff_zero)

lemma year_from_day_bounds:
  "day_from_year (year_from_day z) \<le> z \<and> z < day_from_year (year_from_day z + 1)"
proof -
  define q where "q = (400 * z) div 146097"
  have q1: "146097 * q \<le> 400 * z" and q2: "400 * z < 146097 * q + 146097"
    unfolding q_def using div_lower[of 146097 "400 * z"] div_upper[of 146097 "400 * z"] by simp_all
  have lo: "146097 * ((1970 + q + 2) - 1970) - 506 \<le> 400 * day_from_year (1970 + q + 2)"
    by (rule day_from_year_lower)
  have hi: "400 * day_from_year (1970 + q - 1) \<le> 146097 * ((1970 + q - 1) - 1970) + 589"
    by (rule day_from_year_upper)
  have a: "z < day_from_year (1970 + q + 2)" using lo q2 by (simp add: algebra_simps)
  have b: "day_from_year (1970 + q - 1) \<le> z" using hi q1 by (simp add: algebra_simps)
  show ?thesis
    unfolding year_from_day_def Let_def q_def[symmetric]
    using a b by (auto simp: algebra_simps)
qed

lemma year_length:
  "day_from_year (y + 1) = day_from_year y + 365 + (if leap_year y then 1 else 0)"
proof -
  have e: "day_from_year (y + 1) =
      365 * (y - 1970) + 365 + ((y - 1969) + 1) div 4 - ((y - 1901) + 1) div 100
        + ((y - 1601) + 1) div 400"
    by (simp add: day_from_year_def algebra_simps)
  have m4: "((y - 1969) + 1) mod 4 = y mod 4"
    using mod_shift[of y 4 492] by simp
  have m100: "((y - 1901) + 1) mod 100 = y mod 100"
    using mod_shift[of y 100 19] by simp
  have m400: "((y - 1601) + 1) mod 400 = y mod 400"
    using mod_shift[of y 400 4] by simp
  have c1: "y mod 400 = 0 \<Longrightarrow> y mod 100 = 0"
    using mod_mod_cancel[of 100 400 y] by simp
  have c2: "y mod 100 = 0 \<Longrightarrow> y mod 4 = 0"
    using mod_mod_cancel[of 4 100 y] by simp
  show ?thesis
    unfolding e div_succ[of 4, simplified] div_succ[of 100, simplified]
      div_succ[of 400, simplified] m4 m100 m400
    using c1 c2 by (auto simp: day_from_year_def leap_year_def)
qed

lemma day_from_year_mono: "y \<le> y' \<Longrightarrow> day_from_year y \<le> day_from_year y'"
proof (induction y' rule: int_ge_induct)
  case base
  show ?case by simp
next
  case (step i)
  then show ?case using year_length[of i] by (simp split: if_splits)
qed

lemma civil_from_days_valid:
  assumes "civil_from_days z = (y, m, d)"
  shows "1 \<le> m \<and> m \<le> 12 \<and> 1 \<le> d \<and> d \<le> days_in_month y m \<and> days_from_civil y m d = z"
proof -
  have y: "y = year_from_day z" using assms by (simp add: civil_from_days_def Let_def)
  define n where "n = z - day_from_year y"
  have n0: "0 \<le> n" using year_from_day_bounds[of z] y n_def by simp
  have n1: "n < 365 + (if leap_year y then 1 else 0)"
    using year_from_day_bounds[of z] year_length[of y] y n_def by simp
  have m: "m = month_from_day (leap_year y) n"
    using assms y n_def by (simp add: civil_from_days_def Let_def)
  have d: "d = n - month_start (leap_year y) m + 1"
    using assms y n_def by (auto simp: civil_from_days_def Let_def)
  have mr: "1 \<le> m \<and> m \<le> 12" unfolding m month_from_day_def by simp
  have lo: "month_start (leap_year y) m \<le> n"
    unfolding m month_from_day_def using n0 by (simp add: month_start_def)
  have hi: "n < month_start (leap_year y) (m + 1)"
    unfolding m month_from_day_def using n1 by (auto simp: month_start_def split: if_splits)
  show ?thesis
    using mr lo hi unfolding d days_in_month_def days_from_civil_def n_def by simp
qed

lemma of_char_digit: "(of_char (digit k) :: int) = 48 + k mod 10"
proof -
  have "0 \<le> k mod 10" "k mod 10 < 10" by simp_all
  then have "(48 + k mod 10) mod 256 = 48 + k mod 10" by simp
  then show ?thesis unfolding digit_def by (simp only: of_char_of)
qed

lemma is_digit_digit: "is_digit (digit k)"
  unfolding is_digit_def of_char_digit using pos_mod_bound[of 10 k] pos_mod_sign[of 10 k] by simp

lemma digit_val_digit: "digit_val (digit k) = k mod 10"
  unfolding digit_val_def of_char_digit by simp

lemma num2_two: "0 \<le> k \<Longrightarrow> k < 100 \<Longrightarrow> num2 (digit (k div 10)) (digit k) = k"
proof -
  assume a: "0 \<le> k" "k < 100"
  then have "k div 10 < 10" "0 \<le> k div 10" by simp_all
  then have "k div 10 mod 10 = k div 10" by simp
  then show ?thesis unfolding num2_def digit_val_digit by simp
qed

lemma div_div_10: "(k::int) div 10 div 10 = k div 100" "(k::int) div 100 div 10 = k div 1000"
  by (simp_all add: zdiv_zmult2_eq[symmetric])

lemma horner:
  fixes k :: int
  shows "k = 10 * q1 + d0 \<Longrightarrow> q1 = 10 * q2 + d1 \<Longrightarrow> 100 * q2 + (10 * d1 + d0) = k"
    and "k = 10 * q1 + d0 \<Longrightarrow> q1 = 10 * q2 + d1 \<Longrightarrow> q2 = 10 * q3 + d2 \<Longrightarrow>
         100 * (10 * q3 + d2) + (10 * d1 + d0) = k"
  by simp_all

lemma num3_three:
  assumes "0 \<le> k" "k < 1000"
  shows "100 * digit_val (digit (k div 100)) + num2 (digit (k div 10)) (digit k) = k"
proof -
  have "k div 100 < 10" "0 \<le> k div 100" using assms by simp_all
  then have a: "k div 100 mod 10 = k div 100" by simp
  have b: "k div 10 = 10 * (k div 100) + k div 10 mod 10"
    using mult_div_mod_eq[of 10 "k div 10"] by (simp add: div_div_10)
  have c: "k = 10 * (k div 10) + k mod 10" by simp
  show ?thesis unfolding num2_def digit_val_digit a by (rule horner(1)[OF c b])
qed

lemma num4_four:
  assumes "0 \<le> k" "k < 10000"
  shows "100 * num2 (digit (k div 1000)) (digit (k div 100)) + num2 (digit (k div 10)) (digit k) = k"
proof -
  have "k div 1000 < 10" "0 \<le> k div 1000" using assms by simp_all
  then have a: "k div 1000 mod 10 = k div 1000" by simp
  have b: "k div 10 = 10 * (k div 100) + k div 10 mod 10"
    using mult_div_mod_eq[of 10 "k div 10"] by (simp add: div_div_10)
  have b': "k div 100 = 10 * (k div 1000) + k div 100 mod 10"
    using mult_div_mod_eq[of 10 "k div 100"] by (simp add: div_div_10)
  have c: "k = 10 * (k div 10) + k mod 10" by simp
  show ?thesis unfolding num2_def digit_val_digit a by (rule horner(2)[OF c b b'])
qed

lemma two_chars:
  assumes "0 \<le> k" "k < 100"
  obtains a b where "two k = [a, b]" "is_digit a" "is_digit b" "num2 a b = k"
  using assms by (simp add: two_def is_digit_digit num2_two)

lemma three_chars:
  assumes "0 \<le> k" "k < 1000"
  obtains a b c where "three k = [a, b, c]" "is_digit a" "is_digit b" "is_digit c"
    "100 * digit_val a + num2 b c = k"
  using assms by (simp add: three_def is_digit_digit num3_three)

lemma four_chars:
  assumes "0 \<le> k" "k < 10000"
  obtains a b c d where "four k = [a, b, c, d]" "is_digit a" "is_digit b" "is_digit c"
    "is_digit d" "100 * num2 a b + num2 c d = k"
  using assms by (simp add: four_def is_digit_digit num4_four)

lemma sexagesimal:
  fixes s :: int
  shows "q1 = 60 * q2 + d1 \<Longrightarrow> s = 60 * q1 + d0 \<Longrightarrow> q2 * 3600 + d1 * 60 + d0 = s"
  by simp

lemma clock_parts:
  fixes s :: int
  assumes "0 \<le> s" "s < 86400"
  shows "s div 3600 \<le> 23" "0 \<le> s div 3600"
    "s div 3600 * 3600 + (s div 60 mod 60) * 60 + s mod 60 = s"
proof -
  show "s div 3600 \<le> 23" "0 \<le> s div 3600" using assms by simp_all
  have "s div 60 div 60 = s div 3600" by (simp add: zdiv_zmult2_eq[symmetric])
  then have a: "s div 60 = 60 * (s div 3600) + s div 60 mod 60"
    using mult_div_mod_eq[of 60 "s div 60"] by simp
  have b: "s = 60 * (s div 60) + s mod 60" by simp
  show "s div 3600 * 3600 + (s div 60 mod 60) * 60 + s mod 60 = s"
    by (rule sexagesimal[OF a b])
qed

lemma days_in_month_le:
  assumes "1 \<le> m" "m \<le> 12"
  shows "days_in_month y m \<le> 31"
proof -
  have "m = (1::int) \<or> m = 2 \<or> m = 3 \<or> m = 4 \<or> m = 5 \<or> m = 6 \<or> m = 7 \<or> m = 8 \<or> m = 9
      \<or> m = 10 \<or> m = 11 \<or> m = 12"
    using assms by presburger
  then show ?thesis
    by (elim disjE) (simp_all add: days_in_month_def month_start_def)
qed

lemma year_in_range:
  assumes "day_from_year a \<le> z" "z < day_from_year b"
  shows "a \<le> year_from_day z \<and> year_from_day z < b"
proof -
  note yb = year_from_day_bounds[of z]
  have "a \<le> year_from_day z"
  proof (rule ccontr)
    assume "\<not> a \<le> year_from_day z"
    then have "year_from_day z + 1 \<le> a" by simp
    from day_from_year_mono[OF this] yb assms show False by simp
  qed
  moreover have "year_from_day z < b"
  proof (rule ccontr)
    assume "\<not> year_from_day z < b"
    then have "b \<le> year_from_day z" by simp
    from day_from_year_mono[OF this] yb assms show False by simp
  qed
  ultimately show ?thesis by simp
qed

lemma assemble_time:
  fixes t :: int
  assumes "t = z * 86400000 + r" "r = s * 1000 + f" "h * 3600 + i * 60 + c = s"
  shows "z * 86400000 + h * 3600000 + i * 60000 + c * 1000 + f = t"
  using assms by (simp add: algebra_simps)

lemma parse_utc_toISOString:
  assumes "-62167219200000 \<le> t" "t < 253402300800000"
  shows "parse_utc (toISOString t) = Some t"
proof -
  define z where "z = t div 86400000"
  define r where "r = t mod 86400000"
  define s where "s = r div 1000"
  define f where "f = r mod 1000"
  define h where "h = s div 3600"
  define i where "i = s div 60 mod 60"
  define c where "c = s mod 60"
  obtain y m d where cv: "civil_from_days z = (y, m, d)" by (cases "civil_from_days z") auto
  note v = civil_from_days_valid[OF cv]
  have yz: "y = year_from_day z" using cv by (simp add: civil_from_days_def Let_def)
  have t: "t = z * 86400000 + r" unfolding z_def r_def by simp
  have r: "0 \<le> r" "r < 86400000" unfolding r_def by simp_all
  have zlo: "day_from_year 0 \<le> z"
    using zdiv_mono1[OF assms(1), of 86400000] by (simp add: day_from_year_def z_def)
  have zhi: "z < day_from_year 10000"
    using t r assms(2) by (simp add: day_from_year_def)
  have yr: "0 \<le> y" "y < 10000" using year_in_range[OF zlo zhi] yz by simp_all
  have s: "0 \<le> s" "s < 86400" using r unfolding s_def by simp_all
  have hr: "0 \<le> h" "h \<le> 23" and hic: "h * 3600 + i * 60 + c = s"
    unfolding h_def i_def c_def using clock_parts[OF s] by simp_all
  have ir: "0 \<le> i" "i \<le> 59" unfolding i_def by simp_all
  have cr: "0 \<le> c" "c \<le> 59" unfolding c_def by simp_all
  have fr: "0 \<le> f" "f < 1000" unfolding f_def by simp_all
  have rs: "r = s * 1000 + f" unfolding s_def f_def by simp
  have mr: "0 \<le> m" "m < 100" using v by simp_all
  have dr: "0 \<le> d" "d < 100" using v days_in_month_le[of m y] by simp_all
  have h100: "h < 100" and i100: "i < 100" and c100: "c < 100" using hr ir cr by simp_all
  obtain y1 y2 y3 y4 where y4: "four y = [y1, y2, y3, y4]" "is_digit y1" "is_digit y2"
    "is_digit y3" "is_digit y4" "100 * num2 y1 y2 + num2 y3 y4 = y"
    using four_chars[OF yr] by blast
  obtain m1 m2 where m2: "two m = [m1, m2]" "is_digit m1" "is_digit m2" "num2 m1 m2 = m"
    using two_chars[OF mr] by blast
  obtain d1 d2 where d2: "two d = [d1, d2]" "is_digit d1" "is_digit d2" "num2 d1 d2 = d"
    using two_chars[OF dr] by blast
  obtain h1 h2 where h2: "two h = [h1, h2]" "is_digit h1" "is_digit h2" "num2 h1 h2 = h"
    using two_chars[OF hr(1) h100] by blast
  obtain i1 i2 where i2: "two i = [i1, i2]" "is_digit i1" "is_digit i2" "num2 i1 i2 = i"
    using two_chars[OF ir(1) i100] by blast
  obtain c1 c2 where c2: "two c = [c1, c2]" "is_digit c1" "is_digit c2" "num2 c1 c2 = c"
    using two_chars[OF cr(1) c100] by blast
  obtain f1 f2 f3 where f3: "three f = [f1, f2, f3]" "is_digit f1" "is_digit f2" "is_digit f3"
    "100 * digit_val f1 + num2 f2 f3 = f"
    using three_chars[OF fr] by blast
  have str: "toISOString t =
      [y1, y2, y3, y4, CHR ''-'', m1, m2, CHR ''-'', d1, d2, CHR ''T'', h1, h2, CHR '':'',
       i1, i2, CHR '':'', c1, c2, CHR ''.'', f1, f2, f3, CHR ''Z'']"
    unfolding toISOString_def ms_per_day_def z_def[symmetric] r_def[symmetric] cv clock_def
    using yr y4(1) m2(1) d2(1) h2(1) i2(1) c2(1) f3(1)
    by (simp add: h_def i_def c_def f_def s_def)
  have "parse_utc (toISOString t) =
      Some (days_from_civil y m d * ms_per_day + h * 3600000 + i * 60000 + c * 1000 + f)"
    unfolding str
    using v y4(2-) m2(2-) d2(2-) h2(2-) i2(2-) c2(2-) f3(2-) hr ir cr
    by simp
  also have "\<dots> = Some t"
    using v assemble_time[OF t rs hic] by (simp add: ms_per_day_def)
  finally show ?thesis .
qed

lemma sql_datetime_toISOString:
  assumes "-62167219200000 \<le> t" "t < 253402300800000"
  shows "sql_datetime (toISOString t) = Some (t div 1000)"
  by (simp add: sql_datetime_def parse_utc_toISOString[OF assms])

section \<open>Accepted and rejected issue commands\<close>

lemma insertWarning_Inr:
  "insertWarning rt now r tbl = Inr tbl' \<Longrightarrow>
   tbl' = filter (\<lambda>w. \<not> same_key rt (w_id w) (w_id r)) tbl
          @ [stored rt r (datetime_text (now div 1000))]"
  by (auto simp: insertWarning_def split: if_splits)

lemma accepted_cases:
  assumes "accepted rt now p s"
  obtains t where "validateIssue rt p = Inr ()" "expiry_time rt p = Inr t"
    "expires_iso rt p = Inr (toISOString t)"
    "insertWarning rt now (make_row p (toISOString t)) (db s) =
       Inr (filter (\<lambda>w. \<not> same_key rt (w_id w) (field_of p ''id'')) (db s)
            @ [stored rt (make_row p (toISOString t)) (datetime_text (now div 1000))])"
proof -
  from assms obtain x tbl where v: "validateIssue rt p = Inr ()"
    and x: "expires_iso rt p = Inr x"
    and i: "insertWarning rt now (make_row p x) (db s) = Inr tbl"
    by (auto simp: accepted_def split: sum.splits)
  from x obtain t where t: "expiry_time rt p = Inr t" "x = toISOString t"
    by (auto simp: expires_iso_def split: sum.splits)
  have "tbl = filter (\<lambda>w. \<not> same_key rt (w_id w) (field_of p ''id'')) (db s)
            @ [stored rt (make_row p x) (datetime_text (now div 1000))]"
    using insertWarning_Inr[OF i] by (simp add: make_row_def)
  with v x i t show ?thesis using that by simp
qed

lemma handleIssue_accepted:
  assumes "validateIssue rt p = Inr ()" "expires_iso rt p = Inr (toISOString t)"
    "insertWarning rt now (make_row p (toISOString t)) (db s) = Inr tbl"
  shows "handleIssue rt now p src s =
     (let s1 = scheduleExpiry rt now (field_of p ''id'') (toISOString t) (s\<lparr>db := tbl\<rparr>);
          s2 = broadcast ''issue'' (with_expires p (toISOString t)) s1
      in s2\<lparr>console := console s2 @ [IssueLog src (field_of p ''type'') (field_of p ''id'')]\<rparr>)"
  using assms by (simp add: handleIssue_def Let_def make_row_def)

lemma db_scheduleExpiry: "db (scheduleExpiry rt now i x s) = db s"
  by (simp add: scheduleExpiry_def Let_def split: option.splits)

lemma db_broadcast: "db (broadcast kind obj s) = db s"
  by (simp add: broadcast_def Let_def)

lemma timers_broadcast: "timers (broadcast kind obj s) = timers s"
  by (simp add: broadcast_def Let_def)

lemma db_handleIssue_accepted:
  assumes "accepted rt now p s"
  shows "\<exists>t. expiry_time rt p = Inr t \<and>
    db (handleIssue rt now p src s) =
       filter (\<lambda>w. \<not> same_key rt (w_id w) (field_of p ''id'')) (db s)
       @ [stored rt (make_row p (toISOString t)) (datetime_text (now div 1000))] \<and>
    timers (handleIssue rt now p src s) =
       timers (scheduleExpiry rt now (field_of p ''id'') (toISOString t) s) \<and>
    emitted (handleIssue rt now p src s) =
       emitted s @ [Event ''issue'' (with_expires p (toISOString t))]"
proof -
  from assms obtain t where a: "validateIssue rt p = Inr ()" "expiry_time rt p = Inr t"
    "expires_iso rt p = Inr (toISOString t)"
    "insertWarning rt now (make_row p (toISOString t)) (db s) =
       Inr (filter (\<lambda>w. \<not> same_key rt (w_id w) (field_of p ''id'')) (db s)
            @ [stored rt (make_row p (toISOString t)) (datetime_text (now div 1000))])"
    by (rule accepted_cases)
  note h = handleIssue_accepted[OF a(1) a(3) a(4)]
  have "db (handleIssue rt now p src s) =
       filter (\<lambda>w. \<not> same_key rt (w_id w) (field_of p ''id'')) (db s)
       @ [stored rt (make_row p (toISOString t)) (datetime_text (now div 1000))]"
    unfolding h by (simp add: Let_def db_broadcast db_scheduleExpiry)
  moreover have "timers (handleIssue rt now p src s) =
       timers (scheduleExpiry rt now (field_of p ''id'') (toISOString t) s)"
    unfolding h by (simp add: Let_def timers_broadcast scheduleExpiry_def split: option.splits)
  moreover have "emitted (handleIssue rt now p src s) =
       emitted s @ [Event ''issue'' (with_expires p (toISOString t))]"
    unfolding h
    by (simp add: Let_def broadcast_def scheduleExpiry_def split: option.splits)
  ultimately show ?thesis using a(2) by blast
qed




lemma trunc_of_int: "trunc (of_int x) = x"
  by (simp add: trunc_def)

lemma time_clip_of_int:
  assumes "abs x \<le> 8640000000000000"
  shows "time_clip (Fin (of_int x)) = Some x"
proof -
  have "(of_int (abs x) :: rat) \<le> of_int 8640000000000000"
    using assms by (simp only: of_int_le_iff)
  then have "abs (of_int x :: rat) \<le> 8640000000000000" by simp
  then show ?thesis by (simp add: trunc_of_int)
qed

lemma expiry_time_integral:
  assumes "date_value rt (field_of p ''issuedISO'') = Inr (Some t)"
    and "to_number rt (field_of p ''minutes'') = Inr (Fin (of_int k))"
    and "-62167219200000 \<le> t + k * 60000" "t + k * 60000 < 253402300800000"
  shows "expiry_time rt p = Inr (t + k * 60000)"
proof -
  have "plus_time (Some t) (times_60000 (Fin (of_int k))) = Fin (of_int (t + k * 60000))"
    by simp
  moreover have "time_clip (Fin (of_int (t + k * 60000))) = Some (t + k * 60000)"
    using assms(3,4) by (intro time_clip_of_int) linarith
  ultimately have "time_clip (plus_time (Some t) (times_60000 (Fin (of_int k))))
      = Some (t + k * 60000)"
    by (simp only:)
  then show ?thesis
    using assms(1,2) by (simp add: expiry_time_def)
qed

lemma stored_fields:
  "w_id (stored rt r c) = text_cell rt (w_id r)"
  "w_expiresISO (stored rt r c) = w_expiresISO r"
  "w_active (stored rt r c) = w_active r"
  "w_created_at (stored rt r c) = c"
  by (simp_all add: stored_def)

lemma make_row_fields:
  "w_id (make_row p x) = field_of p ''id''"
  "w_expiresISO (make_row p x) = x"
  "w_active (make_row p x) = 1"
  by (simp_all add: make_row_def)

lemma is_active_stored:
  assumes "-62167219200000 \<le> e" "e < 253402300800000"
  shows "is_active q (stored rt (make_row p (toISOString e)) c) \<longleftrightarrow> q div 1000 < e div 1000"
  by (simp add: is_active_def stored_fields make_row_fields sql_datetime_toISOString[OF assms])





lemma second_before:
  fixes q e :: int
  assumes "q div 1000 < e div 1000"
  shows "q < e"
proof (rule ccontr)
  assume "\<not> q < e"
  then have "e div 1000 \<le> q div 1000" by (intro zdiv_mono1) simp_all
  with assms show False by simp
qed

lemma whole_second_before:
  fixes q e :: int
  assumes "e mod 1000 = 0"
  shows "q div 1000 < e div 1000 \<longleftrightarrow> q < e"
proof
  assume "q div 1000 < e div 1000"
  then show "q < e" by (rule second_before)
next
  assume a: "q < e"
  have e: "e = 1000 * (e div 1000)" using assms mult_div_mod_eq[of 1000 e] by simp
  have "1000 * (q div 1000) \<le> q" by (rule div_lower) simp
  with a e have "1000 * (q div 1000) < 1000 * (e div 1000)" by linarith
  then show "q div 1000 < e div 1000" by simp
qed






text \<open>The concrete commands, evaluated.\<close>

lemma W1_facts:
  "accepted plain_runtime noon (issue_W1 ring ''2024-05-01T12:00:00.000Z'' (JNum (Fin 30))) initial"
  "date_value plain_runtime
     (field_of (issue_W1 ring ''2024-05-01T12:00:00.000Z'' (JNum (Fin 30))) ''issuedISO'')
     = Inr (Some noon)"
  "to_number plain_runtime
     (field_of (issue_W1 ring ''2024-05-01T12:00:00.000Z'' (JNum (Fin 30))) ''minutes'')
     = Inr (Fin (of_int 30))"
  "toISOString (noon + 30 * 60000) = ''2024-05-01T12:30:00.000Z''"
  by code_simp+

lemma reissue_facts:
  "accepted plain_runtime (noon + 60000) reissue_W1 one_warning"
  "expiry_time plain_runtime reissue_W1 = Inr (noon + 1860000)"
  "field_of reissue_W1 ''id'' = JStr ''W1''"
  "timers one_warning = [(noon + 1800000, JStr ''W1'')]"
  by code_simp+




section \<open>Expire broadcasts and activation episodes\<close>














section \<open>Timers of an id that is issued again\<close>




section \<open>Expiry and activity of an issued warning\<close>

text \<open>
  Claim C3, as the code has it. When an issue command is accepted, its \<^verbatim>\<open>issuedISO\<close> is
  the instant \<open>t\<close> and its \<^verbatim>\<open>minutes\<close> the integer \<open>k\<close>, with the expiry in the years 0 to
  9999, the row written last is the warning's: its \<^verbatim>\<open>expiresISO\<close> is the ISO text of
  \<open>t + k * 60000\<close> exactly, it is active, and right after the command the query of the
  active warnings at an instant \<open>q\<close> returns it exactly when the whole second of \<open>q\<close> is
  before the whole second of the expiry; when the expiry is on a whole second, that is
  exactly when \<open>q\<close> is before the expiry.
\<close>

theorem issue_expiry_and_activity:
  assumes "accepted rt now p s"
    and "date_value rt (field_of p ''issuedISO'') = Inr (Some t)"
    and "to_number rt (field_of p ''minutes'') = Inr (Fin (of_int k))"
    and "-62167219200000 \<le> t + k * 60000" "t + k * 60000 < 253402300800000"
  shows "db (handleIssue rt now p src s) \<noteq> []
    \<and> w_id (last (db (handleIssue rt now p src s))) = text_cell rt (field_of p ''id'')
    \<and> w_expiresISO (last (db (handleIssue rt now p src s))) = toISOString (t + k * 60000)
    \<and> w_active (last (db (handleIssue rt now p src s))) = 1
    \<and> (\<forall>q. last (db (handleIssue rt now p src s))
               \<in> set (getActive q (db (handleIssue rt now p src s)))
             \<longleftrightarrow> q div 1000 < (t + k * 60000) div 1000)
    \<and> ((t + k * 60000) mod 1000 = 0 \<longrightarrow>
         (\<forall>q. last (db (handleIssue rt now p src s))
                 \<in> set (getActive q (db (handleIssue rt now p src s)))
               \<longleftrightarrow> q < t + k * 60000))"
proof -
  let ?e = "t + k * 60000"
  have e: "expiry_time rt p = Inr ?e" by (rule expiry_time_integral[OF assms(2-5)])
  obtain t' where "expiry_time rt p = Inr t'"
    and d: "db (handleIssue rt now p src s) =
       filter (\<lambda>w. \<not> same_key rt (w_id w) (field_of p ''id'')) (db s)
       @ [stored rt (make_row p (toISOString t')) (datetime_text (now div 1000))]"
    using db_handleIssue_accepted[OF assms(1), of src] by blast
  with e have t': "t' = ?e" by simp
  have main: "db (handleIssue rt now p src s) \<noteq> []
    \<and> w_id (last (db (handleIssue rt now p src s))) = text_cell rt (field_of p ''id'')
    \<and> w_expiresISO (last (db (handleIssue rt now p src s))) = toISOString (t + k * 60000)
    \<and> w_active (last (db (handleIssue rt now p src s))) = 1
    \<and> (\<forall>q. last (db (handleIssue rt now p src s))
               \<in> set (getActive q (db (handleIssue rt now p src s)))
             \<longleftrightarrow> q div 1000 < (t + k * 60000) div 1000)"
    unfolding d t'
    by (simp add: stored_fields make_row_fields getActive_def
        is_active_stored[OF assms(4,5)])
  then show ?thesis using whole_second_before[of ?e] by simp
qed

text \<open>The example of the specification: \<open>W1\<close> issued at noon for 30 minutes expires at
  12:30, is active at 12:15 and a millisecond before 12:30, and is not at 12:31.\<close>

theorem issue_expiry_and_activity_witness:
  "w_expiresISO (last (db one_warning)) = ''2024-05-01T12:30:00.000Z''
   \<and> w_active (last (db one_warning)) = 1
   \<and> last (db one_warning) \<in> set (getActive (noon + 900000) (db one_warning))
   \<and> last (db one_warning) \<in> set (getActive (noon + 1799999) (db one_warning))
   \<and> last (db one_warning) \<notin> set (getActive (noon + 1860000) (db one_warning))"
proof -
  have r: "-62167219200000 \<le> noon + 30 * 60000" "noon + 30 * 60000 < 253402300800000"
    by (simp_all add: noon_def)
  note t = issue_expiry_and_activity[OF W1_facts(1-3) r, of Io,
      folded one_warning_def, unfolded W1_facts(4)]
  have a: "(noon + 900000) div 1000 < (noon + 30 * 60000) div 1000"
    and b: "\<not> (noon + 1860000) div 1000 < (noon + 30 * 60000) div 1000"
    and c: "(noon + 30 * 60000) mod 1000 = 0" "noon + 1799999 < noon + 30 * 60000"
    by (simp_all add: noon_def)
  from t a b c show ?thesis by blast
qed

text \<open>Claim C3 as it is worded fails twice. A command whose \<^verbatim>\<open>issuedISO\<close> names the month
  13 passes validation, and nothing is stored. A warning issued at half a second past noon
  for 30 minutes expires at 12:30:00.500, and the query at 12:30:00.200, before the expiry,
  does not return it.\<close>

theorem unreadable_date_and_last_second:
  "validateIssue plain_runtime (issue_W1 ring ''2024-13-45T00:00:00.000Z'' (JNum (Fin 30)))
     = Inr ()
   \<and> db (handleIssue plain_runtime noon
         (issue_W1 ring ''2024-13-45T00:00:00.000Z'' (JNum (Fin 30))) Io initial) = []
   \<and> validateIssue plain_runtime (issue_W1 ring ''2024-05-01T12:00:00.500Z'' (JNum (Fin 30)))
     = Inr ()
   \<and> map w_expiresISO (db half_second) = [''2024-05-01T12:30:00.500Z'']
   \<and> parse_utc ''2024-05-01T12:30:00.500Z'' = Some (noon + 1800500)
   \<and> getActive (noon + 1800200) (db half_second) = []"
  by code_simp

section \<open>Which issue commands are rejected\<close>




section \<open>Failures of an issue command\<close>

lemma handleIssue_invalid:
  "validateIssue rt p = Inl e \<Longrightarrow> handleIssue rt now p src s = issue_failed e s"
  by (simp add: handleIssue_def)

lemma handleIssue_no_expiry:
  "validateIssue rt p = Inr u \<Longrightarrow> expires_iso rt p = Inl e \<Longrightarrow>
   handleIssue rt now p src s = issue_failed e s"
  by (simp add: handleIssue_def)

lemma handleIssue_not_stored:
  "validateIssue rt p = Inr u \<Longrightarrow> expires_iso rt p = Inr x \<Longrightarrow>
   insertWarning rt now (make_row p x) (db s) = Inl e \<Longrightarrow>
   handleIssue rt now p src s = issue_failed e s"
  by (simp add: handleIssue_def Let_def)

text \<open>
  Claim C5. When validation, the computation of the expiry or the write to the store
  fails with an error \<open>e\<close>, the issue command leaves the table, the timers and
  everything sent as they were; the only effect is the line on the console that reports
  \<open>e\<close>. The handler returns normally.
\<close>

theorem issue_failure_aborts:
  assumes "validateIssue rt p = Inl e
     \<or> (validateIssue rt p = Inr () \<and> expires_iso rt p = Inl e)
     \<or> (validateIssue rt p = Inr () \<and>
        (\<exists>x. expires_iso rt p = Inr x \<and>
             insertWarning rt now (make_row p x) (db s) = Inl e))"
  shows "handleIssue rt now p src s = s\<lparr>console := console s @ [IssueError e]\<rparr>"
  using assms
  by (auto simp: handleIssue_invalid handleIssue_no_expiry handleIssue_not_stored
      issue_failed_def)

lemma W2_invalid: "validateIssue plain_runtime issue_W2 = Inl (Error ''Missing type'')"
  by (simp add: validateIssue_def required_def issue_W2_def nullish_def)

lemma no_month_13:
  "validateIssue plain_runtime (issue_W1 ring ''2024-13-45T00:00:00.000Z'' (JNum (Fin 30)))
     = Inr ()"
  "expires_iso plain_runtime (issue_W1 ring ''2024-13-45T00:00:00.000Z'' (JNum (Fin 30)))
     = Inl RangeError"
  by code_simp+

lemma W1_valid:
  "validateIssue failing_disk (issue_W1 ring ''2024-05-01T12:00:00.000Z'' (JNum (Fin 30)))
     = Inr ()"
  "expires_iso failing_disk (issue_W1 ring ''2024-05-01T12:00:00.000Z'' (JNum (Fin 30)))
     = Inr ''2024-05-01T12:30:00.000Z''"
  "insertWarning failing_disk noon
     (make_row (issue_W1 ring ''2024-05-01T12:00:00.000Z'' (JNum (Fin 30)))
        ''2024-05-01T12:30:00.000Z'') (db initial) = Inl SqliteError"
  by code_simp+

theorem issue_failure_aborts_witness:
  "handleIssue plain_runtime noon issue_W2 Ws initial
     = initial\<lparr>console := [IssueError (Error ''Missing type'')]\<rparr>
   \<and> handleIssue plain_runtime noon
         (issue_W1 ring ''2024-13-45T00:00:00.000Z'' (JNum (Fin 30))) Ws initial
     = initial\<lparr>console := [IssueError RangeError]\<rparr>
   \<and> handleIssue failing_disk noon
         (issue_W1 ring ''2024-05-01T12:00:00.000Z'' (JNum (Fin 30))) Io initial
     = initial\<lparr>console := [IssueError SqliteError]\<rparr>"
proof -
  let ?bad = "issue_W1 ring ''2024-13-45T00:00:00.000Z'' (JNum (Fin 30))"
  let ?good = "issue_W1 ring ''2024-05-01T12:00:00.000Z'' (JNum (Fin 30))"
  have a: "handleIssue plain_runtime noon issue_W2 Ws initial
      = initial\<lparr>console := console initial @ [IssueError (Error ''Missing type'')]\<rparr>"
    by (rule issue_failure_aborts) (simp add: W2_invalid)
  have b: "handleIssue plain_runtime noon ?bad Ws initial
      = initial\<lparr>console := console initial @ [IssueError RangeError]\<rparr>"
    by (rule issue_failure_aborts) (simp add: no_month_13)
  have c: "handleIssue failing_disk noon ?good Io initial
      = initial\<lparr>console := console initial @ [IssueError SqliteError]\<rparr>"
    by (rule issue_failure_aborts) (simp add: W1_valid)
  show ?thesis
    unfolding a b c by (simp add: initial_def)
qed

section \<open>Timers after a restart\<close>





section \<open>The bootstrap of a new subscriber\<close>















section \<open>The creation time of a row\<close>

lemma created_at_expireById:
  "expireById rt now i tbl = Inr tbl' \<Longrightarrow> map w_created_at tbl' = map w_created_at tbl"
  by (auto simp: expireById_def split: if_splits option.splits)

text \<open>
  Claim C8, as the code has it. The server assigns \<^verbatim>\<open>created_at\<close> at every write of a
  warning: after an accepted issue command the row of the id is the one written last,
  no other row has its key, and its \<^verbatim>\<open>created_at\<close> is the second of that write, whatever
  the table held for the id before. An expiry, by command or by timeout, leaves every
  \<^verbatim>\<open>created_at\<close> as it is.
\<close>

theorem created_at_is_time_of_write:
  "(accepted rt now p s \<longrightarrow>
      db (handleIssue rt now p src s) \<noteq> []
      \<and> w_id (last (db (handleIssue rt now p src s))) = text_cell rt (field_of p ''id'')
      \<and> w_created_at (last (db (handleIssue rt now p src s))) = datetime_text (now div 1000)
      \<and> list_all (\<lambda>w. \<not> same_key rt (w_id w) (field_of p ''id''))
           (butlast (db (handleIssue rt now p src s))))
   \<and> map w_created_at (db (handleExpire rt q i src s)) = map w_created_at (db s)
   \<and> map w_created_at (db (expiry_callback rt q i s)) = map w_created_at (db s)"
proof (intro conjI impI)
  assume "accepted rt now p s"
  then obtain t where d: "db (handleIssue rt now p src s) =
       filter (\<lambda>w. \<not> same_key rt (w_id w) (field_of p ''id'')) (db s)
       @ [stored rt (make_row p (toISOString t)) (datetime_text (now div 1000))]"
    using db_handleIssue_accepted[of rt now p s src] by blast
  show "db (handleIssue rt now p src s) \<noteq> []" unfolding d by simp
  show "w_id (last (db (handleIssue rt now p src s))) = text_cell rt (field_of p ''id'')"
    unfolding d by (simp add: stored_fields make_row_fields)
  show "w_created_at (last (db (handleIssue rt now p src s))) = datetime_text (now div 1000)"
    unfolding d by (simp add: stored_fields)
  show "list_all (\<lambda>w. \<not> same_key rt (w_id w) (field_of p ''id''))
           (butlast (db (handleIssue rt now p src s)))"
    unfolding d by (simp add: list_all_iff)
next
  show "map w_created_at (db (handleExpire rt q i src s)) = map w_created_at (db s)"
    by (auto simp: handleExpire_def Let_def db_broadcast created_at_expireById
        split: sum.splits)
  show "map w_created_at (db (expiry_callback rt q i s)) = map w_created_at (db s)"
    by (auto simp: expiry_callback_def db_broadcast created_at_expireById split: sum.splits)
qed

text \<open>\<open>W1\<close> issued again at 12:01 is created at 12:01; expired, it keeps 12:00.\<close>

theorem created_at_is_time_of_write_witness:
  "w_created_at (last (db (handleIssue plain_runtime (noon + 60000) reissue_W1 Ws one_warning)))
     = ''2024-05-01 12:01:00''
   \<and> map w_created_at (db (handleExpire plain_runtime (noon + 60000) (JStr ''W1'') Ws one_warning))
     = [''2024-05-01 12:00:00'']"
proof -
  note t = created_at_is_time_of_write
    [of plain_runtime "noon + 60000" reissue_W1 one_warning Ws "noon + 60000" "JStr ''W1''"]
  have a: "datetime_text ((noon + 60000) div 1000) = ''2024-05-01 12:01:00''"
    and b: "map w_created_at (db one_warning) = [''2024-05-01 12:00:00'']"
    by code_simp+
  from t reissue_facts(1) show ?thesis unfolding a b by blast
qed

text \<open>Claim C8 as it is worded fails: the row of \<open>W1\<close> is created at 12:00:00, and after
  the second issue of the same id at 12:01:00.\<close>

theorem created_at_reset_by_reissue:
  "map w_created_at (db one_warning) = [''2024-05-01 12:00:00'']
   \<and> map w_created_at (db (handleIssue plain_runtime (noon + 60000) reissue_W1 Ws one_warning))
     = [''2024-05-01 12:01:00'']"
  by code_simp

section \<open>Queries by issue date\<close>





section \<open>Explicit expiry of an id the store does not have\<close>




end
